theory Spec2Isabelle
  imports Complex_Main "HOL-Library.Multiset" "HOL-Library.FSet"
begin

section \<open>The aggregation algebra of \<^verbatim>\<open>python/ray/data/aggregate.py\<close>\<close>

text \<open>
  The module defines the aggregation descriptors \<^verbatim>\<open>Count\<close>, \<^verbatim>\<open>Sum\<close>, \<^verbatim>\<open>Min\<close>,
  \<^verbatim>\<open>Max\<close>, \<^verbatim>\<open>Mean\<close>, \<^verbatim>\<open>Std\<close>, \<^verbatim>\<open>AbsMax\<close>, \<^verbatim>\<open>Quantile\<close> and \<^verbatim>\<open>Unique\<close> on top of
  \<^verbatim>\<open>AggregateFnV2\<close>, and the four null-safety wrappers \<^verbatim>\<open>_null_safe_zero_factory\<close>,
  \<^verbatim>\<open>_null_safe_aggregate\<close>, \<^verbatim>\<open>_null_safe_finalize\<close> and \<^verbatim>\<open>_null_safe_combine\<close>.

  Conventions of the embedding.
  \<^item> A Python value that may be \<^verbatim>\<open>None\<close> has type \<open>'a option\<close>; \<open>None\<close> is Python's
    \<^verbatim>\<open>None\<close> and \<open>'a\<close> is the shape the non-null value has for the aggregation at hand
    (Python is dynamically typed; every aggregation gets the accumulator type its
    \<^verbatim>\<open>aggregate_block\<close>, zero factory and \<^verbatim>\<open>combine\<close> produce).
  \<^item> A raised exception is the left summand of \<open>error + 'a\<close>.
  \<^item> Python's \<^verbatim>\<open>int\<close> is \<open>int\<close>. A finite \<^verbatim>\<open>float\<close> is idealised as the exact
    rational it denotes (\<open>rat\<close>), so float rounding is not part of the model; the
    two infinities, which the code uses as the zero values of \<^verbatim>\<open>Min\<close> and \<^verbatim>\<open>Max\<close>, are
    the constructors of \<open>extnum\<close>.
  \<^item> \<^verbatim>\<open>list.extend\<close> and \<^verbatim>\<open>list.append\<close> update their receiver in place and the code
    returns the receiver; an accumulator is handed over to \<^verbatim>\<open>combine\<close> and not used
    again, so the model returns the updated list as a new value.
  \<^item> The per-block operations (\<^verbatim>\<open>aggregate_block\<close>) go through \<^verbatim>\<open>BlockAccessor\<close>, which
    is outside this module; they are not embedded, only their wrapper is.
\<close>

subsection \<open>Exceptions\<close>

datatype error = ValueError | TypeError | ZeroDivisionError | IndexError

definition and_then :: "error + 'a \<Rightarrow> ('a \<Rightarrow> error + 'b) \<Rightarrow> error + 'b" where
  "and_then m f = (case m of Inl e \<Rightarrow> Inl e | Inr x \<Rightarrow> f x)"

subsection \<open>Python primitives the module uses\<close>

text \<open>
  Modelled from the spec: \<^verbatim>\<open>is_null\<close> is imported from \<^verbatim>\<open>ray.data._internal.util\<close>,
  which is not among the sources. The spec's data model has a single reserved null
  value; here that value is \<open>None\<close>.
\<close>

definition is_null :: "'a option \<Rightarrow> bool" where
  "is_null v = (v = None)"

text \<open>Truthiness of an optional string (\<^verbatim>\<open>if not name\<close>, \<^verbatim>\<open>alias_name if alias_name else ...\<close>,
  \<^verbatim>\<open>on or ''\<close>): \<^verbatim>\<open>None\<close> and the empty string are falsy.\<close>

definition truthy :: "string option \<Rightarrow> bool" where
  "truthy s = (case s of None \<Rightarrow> False | Some t \<Rightarrow> t \<noteq> [])"

text \<open>\<^verbatim>\<open>str(on)\<close> for an optional string.\<close>

definition py_str :: "string option \<Rightarrow> string" where
  "py_str s = (case s of None \<Rightarrow> ''None'' | Some t \<Rightarrow> t)"

text \<open>\<^verbatim>\<open>x + y\<close> on numbers; \<^verbatim>\<open>None\<close> as an operand raises \<^verbatim>\<open>TypeError\<close>.\<close>

definition py_add :: "'a::plus option \<Rightarrow> 'a option \<Rightarrow> error + 'a option" where
  "py_add x y =
     (case (x, y) of
        (Some a, Some b) \<Rightarrow> Inr (Some (a + b))
      | _ \<Rightarrow> Inl TypeError)"

text \<open>\<^verbatim>\<open>min(x, y)\<close> and \<^verbatim>\<open>max(x, y)\<close> of two arguments keep the first argument unless the
  second is strictly smaller (larger); comparing with \<^verbatim>\<open>None\<close> raises \<^verbatim>\<open>TypeError\<close>.\<close>

definition py_min :: "'a::ord option \<Rightarrow> 'a option \<Rightarrow> error + 'a option" where
  "py_min x y =
     (case (x, y) of
        (Some a, Some b) \<Rightarrow> Inr (Some (if b < a then b else a))
      | _ \<Rightarrow> Inl TypeError)"

definition py_max :: "'a::ord option \<Rightarrow> 'a option \<Rightarrow> error + 'a option" where
  "py_max x y =
     (case (x, y) of
        (Some a, Some b) \<Rightarrow> Inr (Some (if b > a then b else a))
      | _ \<Rightarrow> Inl TypeError)"

text \<open>\<^verbatim>\<open>xs[i]\<close> on a list: a negative index counts from the end, an index out of range
  raises \<^verbatim>\<open>IndexError\<close>; subscripting \<^verbatim>\<open>None\<close> raises \<^verbatim>\<open>TypeError\<close>.\<close>

definition py_getitem :: "'a list \<Rightarrow> int \<Rightarrow> error + 'a" where
  "py_getitem xs i =
     (if 0 \<le> i \<and> i < int (length xs) then Inr (xs ! nat i)
      else if i < 0 \<and> - int (length xs) \<le> i then Inr (xs ! nat (int (length xs) + i))
      else Inl IndexError)"

definition py_subscript :: "'a list option \<Rightarrow> int \<Rightarrow> error + 'a" where
  "py_subscript acc i = (case acc of None \<Rightarrow> Inl TypeError | Some xs \<Rightarrow> py_getitem xs i)"

text \<open>\<^verbatim>\<open>a, b, c = acc\<close>: unpacking \<^verbatim>\<open>None\<close> raises \<^verbatim>\<open>TypeError\<close>, a list of another length
  raises \<^verbatim>\<open>ValueError\<close>.\<close>

definition unpack3 :: "'a list option \<Rightarrow> error + ('a \<times> 'a \<times> 'a)" where
  "unpack3 acc =
     (case acc of
        None \<Rightarrow> Inl TypeError
      | Some [a, b, c] \<Rightarrow> Inr (a, b, c)
      | Some _ \<Rightarrow> Inl ValueError)"

text \<open>\<^verbatim>\<open>x / y\<close> (true division) raises \<^verbatim>\<open>ZeroDivisionError\<close> on a zero divisor.\<close>

definition py_truediv :: "rat \<Rightarrow> rat \<Rightarrow> error + rat" where
  "py_truediv x y = (if y = 0 then Inl ZeroDivisionError else Inr (x / y))"

text \<open>\<^verbatim>\<open>int(k)\<close> truncates towards zero.\<close>

definition py_int :: "rat \<Rightarrow> int" where
  "py_int k = (if 0 \<le> k then \<lfloor>k\<rfloor> else \<lceil>k\<rceil>)"

text \<open>\<^verbatim>\<open>round(x, 5)\<close>: the nearest multiple of \<open>10\<^sup>-\<^sup>5\<close>, a tie going to the even one.\<close>

definition round_half_even :: "rat \<Rightarrow> int" where
  "round_half_even x =
     (let f = \<lfloor>x\<rfloor>; d = x - of_int f
      in if d < 1 / 2 then f
         else if 1 / 2 < d then f + 1
         else if even f then f else f + 1)"

definition py_round5 :: "rat \<Rightarrow> rat" where
  "py_round5 x = of_int (round_half_even (x * 100000)) / 100000"

text \<open>The float infinities next to the finite numbers, ordered as Python compares them.\<close>

datatype extnum = MinusInf | Finite rat | PlusInf

instantiation extnum :: linorder
begin

fun less_eq_extnum :: "extnum \<Rightarrow> extnum \<Rightarrow> bool" where
  "less_eq_extnum MinusInf _ = True"
| "less_eq_extnum _ PlusInf = True"
| "less_eq_extnum (Finite a) (Finite b) = (a \<le> b)"
| "less_eq_extnum _ _ = False"

definition less_extnum :: "extnum \<Rightarrow> extnum \<Rightarrow> bool" where
  "less_extnum x y = (x \<le> y \<and> \<not> y \<le> x)"

instance
proof
  fix x y z :: extnum
  show "(x < y) = (x \<le> y \<and> \<not> y \<le> x)"
    by (simp add: less_extnum_def)
  show "x \<le> x"
    by (cases x) simp_all
  show "x \<le> y \<Longrightarrow> y \<le> z \<Longrightarrow> x \<le> z"
    by (cases x; cases y; cases z) simp_all
  show "x \<le> y \<Longrightarrow> y \<le> x \<Longrightarrow> x = y"
    by (cases x; cases y) simp_all
  show "x \<le> y \<or> y \<le> x"
    by (cases x; cases y) auto
qed

end

text \<open>A finished float result that may be \<^verbatim>\<open>np.nan\<close>.\<close>

datatype 'a or_nan = Number 'a | NaN

subsection \<open>The null-safety wrappers\<close>

definition null_safe_zero_factory :: "(unit \<Rightarrow> 'a option) \<Rightarrow> bool \<Rightarrow> 'k \<Rightarrow> 'a option" where
  "null_safe_zero_factory zero_factory ignore_nulls =
     (if ignore_nulls then (\<lambda>_. None) else (\<lambda>_. zero_factory ()))"

definition null_safe_aggregate ::
  "('b \<Rightarrow> error + 'a option) \<Rightarrow> bool \<Rightarrow> 'b \<Rightarrow> error + 'a option" where
  "null_safe_aggregate aggregate ignore_nulls block =
     and_then (aggregate block)
       (\<lambda>result. if is_null result \<and> ignore_nulls then Inr None else Inr result)"

definition null_safe_finalize ::
  "('a option \<Rightarrow> error + 'r option) \<Rightarrow> 'a option \<Rightarrow> error + 'r option" where
  "null_safe_finalize finalize acc = (if is_null acc then Inr None else finalize acc)"

definition null_safe_combine ::
  "('a option \<Rightarrow> 'a option \<Rightarrow> error + 'a option) \<Rightarrow> bool \<Rightarrow>
   'a option \<Rightarrow> 'a option \<Rightarrow> error + 'a option" where
  "null_safe_combine combine ignore_nulls =
     (if ignore_nulls then
        (\<lambda>cur new.
           if is_null cur then Inr new
           else if is_null new then Inr cur
           else combine cur new)
      else
        (\<lambda>cur new.
           if is_null new then Inr new
           else if is_null cur then Inr cur
           else combine cur new))"

subsection \<open>Count, Sum, Min, Max, AbsMax: scalar accumulators\<close>

definition Count_combine :: "int option \<Rightarrow> int option \<Rightarrow> error + int option" where
  "Count_combine current_accumulator new = py_add current_accumulator new"

definition Sum_combine :: "rat option \<Rightarrow> rat option \<Rightarrow> error + rat option" where
  "Sum_combine current_accumulator new = py_add current_accumulator new"

definition Min_combine :: "extnum option \<Rightarrow> extnum option \<Rightarrow> error + extnum option" where
  "Min_combine current_accumulator new = py_min current_accumulator new"

definition Max_combine :: "extnum option \<Rightarrow> extnum option \<Rightarrow> error + extnum option" where
  "Max_combine current_accumulator new = py_max current_accumulator new"

definition AbsMax_combine :: "rat option \<Rightarrow> rat option \<Rightarrow> error + rat option" where
  "AbsMax_combine current_accumulator new = py_max current_accumulator new"

subsection \<open>Mean: the pair \<^verbatim>\<open>[sum, count]\<close>\<close>

definition Mean_combine :: "rat list option \<Rightarrow> rat list option \<Rightarrow> error + rat list option" where
  "Mean_combine current_accumulator new =
     and_then (py_subscript current_accumulator 0) (\<lambda>sum_a.
     and_then (py_subscript new 0) (\<lambda>sum_b.
     and_then (py_subscript current_accumulator 1) (\<lambda>count_a.
     and_then (py_subscript new 1) (\<lambda>count_b.
       Inr (Some [sum_a + sum_b, count_a + count_b])))))"

definition Mean_finalize :: "rat list option \<Rightarrow> error + rat or_nan option" where
  "Mean_finalize accumulator =
     and_then (py_subscript accumulator 1) (\<lambda>count.
       if count = 0 then Inr (Some NaN)
       else and_then (py_subscript accumulator 0) (\<lambda>total.
            and_then (py_truediv total count) (\<lambda>mean. Inr (Some (Number mean)))))"

subsection \<open>Std: the triple \<^verbatim>\<open>[M2, mean, count]\<close>\<close>

definition Std_combine :: "rat list option \<Rightarrow> rat list option \<Rightarrow> error + rat list option" where
  "Std_combine current_accumulator new =
     and_then (unpack3 current_accumulator) (\<lambda>(M2_a, mean_a, count_a).
     and_then (unpack3 new) (\<lambda>(M2_b, mean_b, count_b).
       let delta = mean_b - mean_a;
           count = count_a + count_b
       in and_then (py_truediv (mean_a * count_a + mean_b * count_b) count) (\<lambda>mean.
          and_then (py_truediv (delta\<^sup>2 * count_a * count_b) count) (\<lambda>correction.
            Inr (Some [M2_a + M2_b + correction, mean, count])))))"

text \<open>\<^verbatim>\<open>math.sqrt\<close> raises \<^verbatim>\<open>ValueError\<close> on a negative argument.\<close>

definition Std_finalize :: "int \<Rightarrow> rat list option \<Rightarrow> error + real or_nan option" where
  "Std_finalize ddof accumulator =
     and_then (unpack3 accumulator) (\<lambda>(M2, mean, count).
       if count - of_int ddof \<le> 0 then Inr (Some NaN)
       else if M2 / (count - of_int ddof) < 0 then Inl ValueError
       else Inr (Some (Number (sqrt (of_rat (M2 / (count - of_int ddof)))))))"

subsection \<open>Quantile: the list of the column's values\<close>

text \<open>A non-null value of a column is a number or a string; a cell of the column is such
  a value or \<^verbatim>\<open>None\<close>. A Quantile accumulator is a list of cells or, as \<^verbatim>\<open>combine\<close>
  allows for, a value that is not a list.\<close>

datatype scalar = Num rat | Str string

datatype qacc = QList "scalar option list" | QScalar scalar

text \<open>\<^verbatim>\<open>x is not None and x != ""\<close>, and the list item a value that is not a list becomes
  when it is appended (for a list, which the code never appends, the item is not
  modelled).\<close>

definition keep :: "qacc option \<Rightarrow> bool" where
  "keep x = (x \<noteq> None \<and> x \<noteq> Some (QScalar (Str [])))"

fun as_item :: "qacc option \<Rightarrow> scalar option" where
  "as_item (Some (QScalar v)) = Some v"
| "as_item _ = None"

definition Quantile_combine :: "qacc option \<Rightarrow> qacc option \<Rightarrow> error + qacc option" where
  "Quantile_combine current_accumulator new =
     (case (current_accumulator, new) of
        (Some (QList cur), Some (QList nw)) \<Rightarrow> Inr (Some (QList (cur @ nw)))
      | (Some (QList cur), _) \<Rightarrow>
          Inr (Some (QList (if keep new then cur @ [as_item new] else cur)))
      | (_, Some (QList nw)) \<Rightarrow>
          Inr (Some (QList (if keep current_accumulator
                            then nw @ [as_item current_accumulator] else nw)))
      | _ \<Rightarrow>
          Inr (Some (QList ((if keep current_accumulator then [as_item current_accumulator] else [])
                            @ (if keep new then [as_item new] else [])))))"

text \<open>Iterating the accumulator (\<^verbatim>\<open>for v in accumulator\<close>, \<^verbatim>\<open>sorted(accumulator)\<close>): a list
  gives its items, a string its characters; \<^verbatim>\<open>None\<close> and a number are not iterable.\<close>

fun py_iter :: "qacc option \<Rightarrow> error + scalar option list" where
  "py_iter (Some (QList xs)) = Inr xs"
| "py_iter (Some (QScalar (Str s))) = Inr (map (\<lambda>c. Some (Str [c])) s)"
| "py_iter _ = Inl TypeError"

text \<open>\<^verbatim>\<open>x < y\<close> on cells: numbers by value, strings lexicographically by character code,
  anything else raises \<^verbatim>\<open>TypeError\<close>.\<close>

fun str_lt :: "string \<Rightarrow> string \<Rightarrow> bool" where
  "str_lt [] [] = False"
| "str_lt [] (y # ys) = True"
| "str_lt (x # xs) [] = False"
| "str_lt (x # xs) (y # ys) =
     ((of_char x :: nat) < of_char y \<or> (x = y \<and> str_lt xs ys))"

fun py_lt :: "scalar option \<Rightarrow> scalar option \<Rightarrow> error + bool" where
  "py_lt (Some (Num a)) (Some (Num b)) = Inr (a < b)"
| "py_lt (Some (Str s)) (Some (Str t)) = Inr (str_lt s t)"
| "py_lt _ _ = Inl TypeError"

text \<open>\<^verbatim>\<open>sorted(xs)\<close>: a stable sort that only asks \<^verbatim>\<open>y < x\<close>, here by insertion; a
  comparison that raises makes the sort raise.\<close>

fun py_insort :: "scalar option \<Rightarrow> scalar option list \<Rightarrow> error + scalar option list" where
  "py_insort x [] = Inr [x]"
| "py_insort x (y # ys) =
     and_then (py_lt y x) (\<lambda>smaller.
       if smaller then and_then (py_insort x ys) (\<lambda>zs. Inr (y # zs))
       else Inr (x # y # ys))"

fun py_sorted :: "scalar option list \<Rightarrow> error + scalar option list" where
  "py_sorted [] = Inr []"
| "py_sorted (x # xs) = and_then (py_sorted xs) (py_insort x)"

text \<open>\<^verbatim>\<open>v * r\<close> for a cell \<open>v\<close> and a float \<open>r\<close>: only a number can be multiplied by a
  float.\<close>

fun py_mul_float :: "scalar option \<Rightarrow> rat \<Rightarrow> error + rat" where
  "py_mul_float (Some (Num x)) r = Inr (x * r)"
| "py_mul_float _ r = Inl TypeError"

definition Quantile_finalize :: "bool \<Rightarrow> rat \<Rightarrow> qacc option \<Rightarrow> error + scalar option" where
  "Quantile_finalize ignore_nulls q accumulator =
     and_then (py_iter accumulator) (\<lambda>items.
       let accumulator' = (if ignore_nulls then filter (\<lambda>v. \<not> is_null v) items else items);
           nulls = (if ignore_nulls then [] else filter (\<lambda>v. is_null v) items)
       in case nulls of
            null # _ \<Rightarrow> Inr null
          | [] \<Rightarrow>
             if accumulator' = [] then Inr None
             else and_then (py_sorted accumulator') (\<lambda>input_values.
               let k = (of_nat (length input_values) - 1) * q;
                   f = \<lfloor>k\<rfloor>;
                   c = \<lceil>k\<rceil>
               in if f = c then py_getitem input_values (py_int k)
                  else and_then (py_getitem input_values f) (\<lambda>at_f.
                       and_then (py_mul_float at_f (of_int c - k)) (\<lambda>d0.
                       and_then (py_getitem input_values c) (\<lambda>at_c.
                       and_then (py_mul_float at_c (k - of_int f)) (\<lambda>d1.
                         Inr (Some (Num (py_round5 (d0 + d1))))))))))"

subsection \<open>Unique: the set of the column's values\<close>

datatype uacc = USet "scalar option fset" | UList "scalar option list" | UScalar scalar

fun Unique_to_set :: "uacc option \<Rightarrow> scalar option fset" where
  "Unique_to_set (Some (USet s)) = s"
| "Unique_to_set (Some (UList xs)) = fset_of_list xs"
| "Unique_to_set (Some (UScalar v)) = {|Some v|}"
| "Unique_to_set None = {|None|}"

definition Unique_combine :: "uacc option \<Rightarrow> uacc option \<Rightarrow> error + uacc option" where
  "Unique_combine current_accumulator new =
     Inr (Some (USet (Unique_to_set current_accumulator |\<union>| Unique_to_set new)))"

subsection \<open>The descriptors and their constructors\<close>

text \<open>\<^verbatim>\<open>AggregateFn\<close> keeps the display name and the functions the engine calls; \<open>'k\<close> is
  the type of group keys, \<open>'a\<close> of non-null accumulators, \<open>'r\<close> of non-null results.
  \<^verbatim>\<open>AggregateFnV2\<close> adds the target column and the null policy.\<close>

record ('k, 'a, 'r) AggregateFn =
  name :: string
  init :: "'k \<Rightarrow> 'a option"
  merge :: "'a option \<Rightarrow> 'a option \<Rightarrow> error + 'a option"
  finalize :: "'a option \<Rightarrow> error + 'r option"

record ('k, 'a, 'r) AggregateFnV2 = "('k, 'a, 'r) AggregateFn" +
  target_col_name :: "string option"
  ignore_nulls :: bool

text \<open>\<^verbatim>\<open>AggregateFn.__init__\<close>: exactly one of \<^verbatim>\<open>accumulate_row\<close> and \<^verbatim>\<open>accumulate_block\<close>
  must be given (the two flags say which are), and the name must be a string. The
  accumulate function itself works on blocks and is not kept in the model.\<close>

definition AggregateFn_init ::
  "('k \<Rightarrow> 'a option) \<Rightarrow> ('a option \<Rightarrow> 'a option \<Rightarrow> error + 'a option) \<Rightarrow> string option \<Rightarrow>
   bool \<Rightarrow> bool \<Rightarrow> ('a option \<Rightarrow> error + 'r option) \<Rightarrow> error + ('k, 'a, 'r) AggregateFn" where
  "AggregateFn_init init' merge' name' has_accumulate_row has_accumulate_block finalize' =
     (if (\<not> has_accumulate_row \<and> \<not> has_accumulate_block)
         \<or> (has_accumulate_row \<and> has_accumulate_block) then Inl ValueError
      else case name' of
             None \<Rightarrow> Inl TypeError
           | Some n \<Rightarrow>
               Inr \<lparr>name = n, init = init', merge = merge', finalize = finalize'\<rparr>)"

text \<open>\<^verbatim>\<open>AggregateFnV2.__init__\<close>: the name check comes first; the base constructor is then
  called with the wrapped functions and with \<^verbatim>\<open>accumulate_block\<close> only.\<close>

definition AggregateFnV2_init ::
  "string option \<Rightarrow> (unit \<Rightarrow> 'a option) \<Rightarrow> string option \<Rightarrow> bool \<Rightarrow>
   ('a option \<Rightarrow> 'a option \<Rightarrow> error + 'a option) \<Rightarrow> ('a option \<Rightarrow> error + 'r option) \<Rightarrow>
   error + ('k, 'a, 'r) AggregateFnV2" where
  "AggregateFnV2_init name' zero_factory on ignore_nulls' combine finalize' =
     (if \<not> truthy name' then Inl ValueError
      else and_then
             (AggregateFn_init
                (null_safe_zero_factory zero_factory ignore_nulls')
                (null_safe_combine combine ignore_nulls')
                name' False True
                (null_safe_finalize finalize'))
             (\<lambda>base. Inr (AggregateFn.extend base
                             (AggregateFnV2.fields on ignore_nulls'))))"

text \<open>An argument with a default value is an option: \<open>None\<close> is the argument left out.
  \<^verbatim>\<open>alias_name if alias_name else default\<close> is \<open>alias_or\<close>.\<close>

definition default_to :: "'a \<Rightarrow> 'a option \<Rightarrow> 'a" where
  "default_to d arg = (case arg of None \<Rightarrow> d | Some v \<Rightarrow> v)"

definition alias_or :: "string option \<Rightarrow> string \<Rightarrow> string" where
  "alias_or alias_name d = (case alias_name of None \<Rightarrow> d | Some a \<Rightarrow> if a \<noteq> [] then a else d)"

text \<open>The default \<^verbatim>\<open>_finalize\<close> of \<^verbatim>\<open>AggregateFnV2\<close> returns the accumulator.\<close>

definition AggregateFnV2_finalize :: "'a option \<Rightarrow> error + 'a option" where
  "AggregateFnV2_finalize accumulator = Inr accumulator"

definition Count_init ::
  "string option \<Rightarrow> bool option \<Rightarrow> string option \<Rightarrow> error + ('k, int, int) AggregateFnV2" where
  "Count_init on ignore_nulls' alias_name =
     AggregateFnV2_init
       (Some (alias_or alias_name (''count('' @ (if truthy on then py_str on else []) @ '')'')))
       (\<lambda>_. Some 0) on (default_to False ignore_nulls') Count_combine AggregateFnV2_finalize"

definition Sum_init ::
  "string option \<Rightarrow> bool option \<Rightarrow> string option \<Rightarrow> error + ('k, rat, rat) AggregateFnV2" where
  "Sum_init on ignore_nulls' alias_name =
     AggregateFnV2_init
       (Some (alias_or alias_name (''sum('' @ py_str on @ '')'')))
       (\<lambda>_. Some 0) on (default_to True ignore_nulls') Sum_combine AggregateFnV2_finalize"

definition Min_init ::
  "string option \<Rightarrow> bool option \<Rightarrow> string option \<Rightarrow>
   error + ('k, extnum, extnum) AggregateFnV2" where
  "Min_init on ignore_nulls' alias_name =
     AggregateFnV2_init
       (Some (alias_or alias_name (''min('' @ py_str on @ '')'')))
       (\<lambda>_. Some PlusInf) on (default_to True ignore_nulls') Min_combine AggregateFnV2_finalize"

definition Max_init ::
  "string option \<Rightarrow> bool option \<Rightarrow> string option \<Rightarrow>
   error + ('k, extnum, extnum) AggregateFnV2" where
  "Max_init on ignore_nulls' alias_name =
     AggregateFnV2_init
       (Some (alias_or alias_name (''max('' @ py_str on @ '')'')))
       (\<lambda>_. Some MinusInf) on (default_to True ignore_nulls') Max_combine AggregateFnV2_finalize"

definition Mean_init ::
  "string option \<Rightarrow> bool option \<Rightarrow> string option \<Rightarrow>
   error + ('k, rat list, rat or_nan) AggregateFnV2" where
  "Mean_init on ignore_nulls' alias_name =
     AggregateFnV2_init
       (Some (alias_or alias_name (''mean('' @ py_str on @ '')'')))
       (\<lambda>_. Some [0, 0]) on (default_to True ignore_nulls') Mean_combine Mean_finalize"

definition Std_init ::
  "string option \<Rightarrow> int option \<Rightarrow> bool option \<Rightarrow> string option \<Rightarrow>
   error + ('k, rat list, real or_nan) AggregateFnV2" where
  "Std_init on ddof ignore_nulls' alias_name =
     AggregateFnV2_init
       (Some (alias_or alias_name (''std('' @ py_str on @ '')'')))
       (\<lambda>_. Some [0, 0, 0]) on (default_to True ignore_nulls') Std_combine
       (Std_finalize (default_to 1 ddof))"

definition AbsMax_init ::
  "string option \<Rightarrow> bool option \<Rightarrow> string option \<Rightarrow> error + ('k, rat, rat) AggregateFnV2" where
  "AbsMax_init on ignore_nulls' alias_name =
     (if on = None then Inl ValueError
      else AggregateFnV2_init
             (Some (alias_or alias_name (''abs_max('' @ py_str on @ '')'')))
             (\<lambda>_. Some 0) on (default_to True ignore_nulls') AbsMax_combine
             AggregateFnV2_finalize)"

definition Quantile_init ::
  "string option \<Rightarrow> rat option \<Rightarrow> bool option \<Rightarrow> string option \<Rightarrow>
   error + ('k, qacc, scalar) AggregateFnV2" where
  "Quantile_init on q ignore_nulls' alias_name =
     AggregateFnV2_init
       (Some (alias_or alias_name (''quantile('' @ py_str on @ '')'')))
       (\<lambda>_. Some (QList [])) on (default_to True ignore_nulls') Quantile_combine
       (Quantile_finalize (default_to True ignore_nulls') (default_to (1 / 2) q))"

definition Unique_init ::
  "string option \<Rightarrow> bool option \<Rightarrow> string option \<Rightarrow> error + ('k, uacc, uacc) AggregateFnV2" where
  "Unique_init on ignore_nulls' alias_name =
     AggregateFnV2_init
       (Some (alias_or alias_name (''unique('' @ py_str on @ '')'')))
       (\<lambda>_. Some (USet {||})) on (default_to True ignore_nulls') Unique_combine
       AggregateFnV2_finalize"

subsection \<open>Vocabulary of the statements\<close>

text \<open>Merging a sequence of further accumulators, one after the other, into a running
  accumulator; an exception ends the run.\<close>

fun merge_all :: "('a \<Rightarrow> 'a \<Rightarrow> error + 'a) \<Rightarrow> 'a \<Rightarrow> 'a list \<Rightarrow> error + 'a" where
  "merge_all f acc [] = Inr acc"
| "merge_all f acc (x # xs) = and_then (f acc x) (\<lambda>acc'. merge_all f acc' xs)"

text \<open>What an operand of Quantile's \<^verbatim>\<open>combine\<close> contributes to the merged list, in the
  spec's words: a list its items; a bare scalar itself, unless it is null or the empty
  string.\<close>

fun spec_contribution :: "qacc option \<Rightarrow> scalar option list" where
  "spec_contribution None = []"
| "spec_contribution (Some (QList xs)) = xs"
| "spec_contribution (Some (QScalar (Str []))) = []"
| "spec_contribution (Some (QScalar v)) = [Some v]"

text \<open>What the engine reads off a constructed descriptor (the constructor's exception
  is passed on): its display name, its null policy, the initial accumulator of a group,
  and the result of a group that received no partial accumulator at all, which is
  \<^verbatim>\<open>finalize\<close> applied to the initial accumulator.\<close>

definition display_name :: "error + ('k, 'a, 'r) AggregateFnV2 \<Rightarrow> error + string" where
  "display_name made = and_then made (\<lambda>d. Inr (name d))"

definition null_policy :: "error + ('k, 'a, 'r) AggregateFnV2 \<Rightarrow> error + bool" where
  "null_policy made = and_then made (\<lambda>d. Inr (ignore_nulls d))"

definition initial :: "error + ('k, 'a, 'r) AggregateFnV2 \<Rightarrow> 'k \<Rightarrow> error + 'a option" where
  "initial made key = and_then made (\<lambda>d. Inr (init d key))"

definition empty_group :: "error + ('k, 'a, 'r) AggregateFnV2 \<Rightarrow> 'k \<Rightarrow> error + 'r option" where
  "empty_group made key = and_then made (\<lambda>d. finalize d (init d key))"

text \<open>The two laws of a merge function that may raise: the order of the operands, and the
  grouping of three operands, do not change the outcome (the value, or the exception).\<close>

definition commutes :: "('a \<Rightarrow> 'a \<Rightarrow> error + 'a) \<Rightarrow> 'a \<Rightarrow> 'a \<Rightarrow> bool" where
  "commutes f a b = (f a b = f b a)"

definition associates :: "('a \<Rightarrow> 'a \<Rightarrow> error + 'a) \<Rightarrow> 'a \<Rightarrow> 'a \<Rightarrow> 'a \<Rightarrow> bool" where
  "associates f a b c = (and_then (f a b) (\<lambda>ab. f ab c) = and_then (f b c) (\<lambda>bc. f a bc))"

text \<open>Two outcomes of Quantile's merge hold the same items, each as often, in some order
  (or are the same exception).\<close>

definition same_items :: "error + qacc option \<Rightarrow> error + qacc option \<Rightarrow> bool" where
  "same_items x y =
     (map_sum id (\<lambda>acc. mset (spec_contribution acc)) x = map_sum id (\<lambda>acc. mset (spec_contribution acc)) y)"

text \<open>The accumulators the aggregations produce: a Mean accumulator is null or a pair
  \<open>[sum, count]\<close>; a Std accumulator is null or a triple \<open>[M2, mean, count]\<close>, with a
  positive count when it comes from a block (\<^verbatim>\<open>aggregate_block\<close> returns null for a block
  without rows); a Quantile accumulator is null or a list.\<close>

definition is_pair :: "rat list option \<Rightarrow> bool" where
  "is_pair acc = (case acc of None \<Rightarrow> True | Some xs \<Rightarrow> length xs = 2)"

definition is_triple_with_rows :: "rat list option \<Rightarrow> bool" where
  "is_triple_with_rows acc = (case acc of None \<Rightarrow> True | Some xs \<Rightarrow> length xs = 3 \<and> 0 < xs ! 2)"

definition is_list :: "qacc option \<Rightarrow> bool" where
  "is_list acc = (case acc of Some (QScalar _) \<Rightarrow> False | _ \<Rightarrow> True)"

text \<open>The numbers among the cells of a list, in order; nulls are dropped.\<close>

fun numbers_of :: "scalar option list \<Rightarrow> rat list" where
  "numbers_of [] = []"
| "numbers_of (Some (Num x) # vs) = x # numbers_of vs"
| "numbers_of (v # vs) = numbers_of vs"

text \<open>The quantile of a sorted, non-empty list of numbers in the spec's words: the
  fractional rank \<open>k = (n - 1) * q\<close>, its floor \<open>f\<close> and ceiling \<open>c\<close>; the element at
  index \<open>k\<close> when \<open>f = c\<close>, otherwise \<open>sorted[f] * (c - k) + sorted[c] * (k - f)\<close> rounded
  to 5 decimal places. \<open>spec_quantile\<close> indexes as Python does; \<open>spec_interpolation\<close> is the
  same value with plain list indexing, for a rank inside the list.\<close>

definition spec_quantile :: "rat \<Rightarrow> rat list \<Rightarrow> error + rat" where
  "spec_quantile q ys =
     (let k = (of_nat (length ys) - 1) * q; f = \<lfloor>k\<rfloor>; c = \<lceil>k\<rceil>
      in if f = c then py_getitem ys f
         else and_then (py_getitem ys f) (\<lambda>lo.
              and_then (py_getitem ys c) (\<lambda>hi.
                Inr (py_round5 (lo * (of_int c - k) + hi * (k - of_int f))))))"

definition spec_interpolation :: "rat \<Rightarrow> rat list \<Rightarrow> rat" where
  "spec_interpolation q ys =
     (let k = (of_nat (length ys) - 1) * q; f = \<lfloor>k\<rfloor>; c = \<lceil>k\<rceil>
      in if f = c then ys ! nat f
         else py_round5 (ys ! nat f * (of_int c - k) + ys ! nat c * (k - of_int f)))"

section \<open>Properties\<close>

lemma and_then_Inr [simp]: "and_then (Inr x) f = f x"
  by (simp add: and_then_def)

lemma and_then_Inl [simp]: "and_then (Inl e) f = Inl e"
  by (simp add: and_then_def)

subsection \<open>Construction\<close>

lemma AggregateFnV2_init_Some:
  "n \<noteq> [] \<Longrightarrow>
   AggregateFnV2_init (Some n) zf on ign comb fin =
     Inr \<lparr>name = n, init = null_safe_zero_factory zf ign, merge = null_safe_combine comb ign,
          finalize = null_safe_finalize fin, target_col_name = on, ignore_nulls = ign\<rparr>"
  by (simp add: AggregateFnV2_init_def AggregateFn_init_def truthy_def and_then_def
      AggregateFn.extend_def AggregateFnV2.fields_def)

lemma alias_or_nonempty: "d \<noteq> [] \<Longrightarrow> alias_or a d \<noteq> []"
  by (simp add: alias_or_def split: option.splits)

lemma default_names_nonempty: "alias_or a (c # s) \<noteq> []"
  by (simp add: alias_or_nonempty)

lemmas init_defs = Count_init_def Sum_init_def Min_init_def Max_init_def Mean_init_def
  Std_init_def AbsMax_init_def Quantile_init_def Unique_init_def

lemma display_name_made:
  "n \<noteq> [] \<Longrightarrow> display_name (AggregateFnV2_init (Some n) zf on ign comb fin) = Inr n"
  by (simp add: AggregateFnV2_init_Some display_name_def and_then_def)

lemma null_policy_made:
  "n \<noteq> [] \<Longrightarrow> null_policy (AggregateFnV2_init (Some n) zf on ign comb fin) = Inr ign"
  by (simp add: AggregateFnV2_init_Some null_policy_def and_then_def)

lemma empty_group_made:
  "n \<noteq> [] \<Longrightarrow> empty_group (AggregateFnV2_init (Some n) zf on True comb fin) key = Inr None"
  "n \<noteq> [] \<Longrightarrow> initial (AggregateFnV2_init (Some n) zf on True comb fin) key = Inr None"
  by (simp_all add: AggregateFnV2_init_Some empty_group_def initial_def and_then_def
      null_safe_finalize_def null_safe_zero_factory_def is_null_def)

lemma AggregateFnV2_init_falsy:
  "AggregateFnV2_init None zf on ign comb fin = Inl ValueError"
  "AggregateFnV2_init (Some []) zf on ign comb fin = Inl ValueError"
  by (simp_all add: AggregateFnV2_init_def truthy_def)

lemma alias_or_simps:
  "alias_or None d = d" "alias_or (Some []) d = d" "alias_or (Some (c # cs)) d = c # cs"
  by (simp_all add: alias_or_def)

lemma on_or_empty: "(if truthy on then py_str on else []) = (case on of None \<Rightarrow> [] | Some t \<Rightarrow> t)"
  by (simp add: truthy_def py_str_def split: option.splits)

text \<open>
  C7, as the claim states it, fails: a built-in aggregation given an empty display name
  does not raise. \<^verbatim>\<open>Count(alias_name="")\<close> is constructed, under the name \<^verbatim>\<open>count()\<close>.
\<close>

theorem empty_alias_still_constructs:
  "display_name (Count_init None None (Some []) :: error + (unit, int, int) AggregateFnV2)
   = Inr ''count()''"
  by (simp add: Count_init_def display_name_made alias_or_def truthy_def)

text \<open>
  C7, amended. The base constructor \<^verbatim>\<open>AggregateFnV2.__init__\<close> raises \<^verbatim>\<open>ValueError\<close> when
  the name it is given is missing or empty, and constructs under any other name.
  \<^verbatim>\<open>AbsMax\<close> without a target column raises \<^verbatim>\<open>ValueError\<close>. Every other construction of
  a built-in aggregation succeeds: a missing or empty alias is replaced by the canonical
  name of the kind, which is never empty.
\<close>

theorem construction_errors:
  "AggregateFnV2_init None zf on ign comb fin = Inl ValueError
   \<and> AggregateFnV2_init (Some []) zf on ign comb fin = Inl ValueError
   \<and> display_name (AggregateFnV2_init (Some (c # cs)) zf on ign comb fin) = Inr (c # cs)
   \<and> AbsMax_init None ign' alias = Inl ValueError
   \<and> display_name (AbsMax_init (Some column) ign' alias)
       = Inr (alias_or alias (''abs_max('' @ column @ '')''))
   \<and> display_name (Count_init on ign' alias)
       = Inr (alias_or alias (''count('' @ (case on of None \<Rightarrow> [] | Some t \<Rightarrow> t) @ '')''))
   \<and> display_name (Sum_init on ign' alias) = Inr (alias_or alias (''sum('' @ py_str on @ '')''))
   \<and> display_name (Min_init on ign' alias) = Inr (alias_or alias (''min('' @ py_str on @ '')''))
   \<and> display_name (Max_init on ign' alias) = Inr (alias_or alias (''max('' @ py_str on @ '')''))
   \<and> display_name (Mean_init on ign' alias) = Inr (alias_or alias (''mean('' @ py_str on @ '')''))
   \<and> display_name (Std_init on ddof ign' alias) = Inr (alias_or alias (''std('' @ py_str on @ '')''))
   \<and> display_name (Quantile_init on q ign' alias)
       = Inr (alias_or alias (''quantile('' @ py_str on @ '')''))
   \<and> display_name (Unique_init on ign' alias)
       = Inr (alias_or alias (''unique('' @ py_str on @ '')''))
   \<and> alias_or None d = d \<and> alias_or (Some []) d = d \<and> alias_or (Some (c # cs)) d = c # cs"
  by (simp add: init_defs display_name_made default_names_nonempty
      AggregateFnV2_init_falsy alias_or_simps on_or_empty py_str_def)

text \<open>
  C10. With the \<^verbatim>\<open>ignore_nulls\<close> argument left out, \<^verbatim>\<open>Count\<close> is constructed with the
  policy \<open>False\<close>, and \<^verbatim>\<open>Sum\<close>, \<^verbatim>\<open>Min\<close>, \<^verbatim>\<open>Max\<close>, \<^verbatim>\<open>Mean\<close>, \<^verbatim>\<open>Std\<close>, \<^verbatim>\<open>AbsMax\<close>, \<^verbatim>\<open>Quantile\<close>
  and \<^verbatim>\<open>Unique\<close> with the policy \<open>True\<close>.
\<close>

theorem default_null_policy:
  "null_policy (Count_init on None alias) = Inr False
   \<and> null_policy (Sum_init on None alias) = Inr True
   \<and> null_policy (Min_init on None alias) = Inr True
   \<and> null_policy (Max_init on None alias) = Inr True
   \<and> null_policy (Mean_init on None alias) = Inr True
   \<and> null_policy (Std_init on ddof None alias) = Inr True
   \<and> null_policy (AbsMax_init (Some column) None alias) = Inr True
   \<and> null_policy (Quantile_init on q None alias) = Inr True
   \<and> null_policy (Unique_init on None alias) = Inr True"
  by (simp add: init_defs default_to_def null_policy_made default_names_nonempty)

subsection \<open>The null-safety wrappers\<close>

lemma merge_all_poisoned:
  "merge_all (null_safe_combine combine False) None news = Inr None"
  by (induction news) (simp_all add: null_safe_combine_def is_null_def and_then_def)

text \<open>
  C2. Under \<^verbatim>\<open>ignore_nulls = True\<close> the safe zero factory returns null, and null is a
  two-sided identity of the safe combine: merging the zero with any accumulator \<open>a\<close>, on
  either side, returns \<open>a\<close>. This holds for every raw zero factory and raw combine.
\<close>

theorem null_safe_identity_law:
  "null_safe_zero_factory zero_factory True key = None
   \<and> null_safe_combine combine True (null_safe_zero_factory zero_factory True key) a = Inr a
   \<and> null_safe_combine combine True a (null_safe_zero_factory zero_factory True key) = Inr a"
  by (simp add: null_safe_zero_factory_def null_safe_combine_def is_null_def)

text \<open>
  C3. Under \<^verbatim>\<open>ignore_nulls = False\<close> the safe combine looks at the new operand first and
  returns it when it is null, then at the current one; so a null operand on either side
  gives null, a null accumulator stays null through every further merge, and the safe
  finalize of a null accumulator is null.
\<close>

theorem null_safe_absorption_law:
  "null_safe_combine combine False cur new =
     (if is_null new then Inr new else if is_null cur then Inr cur else combine cur new)
   \<and> null_safe_combine combine False cur None = Inr None
   \<and> null_safe_combine combine False None new = Inr None
   \<and> merge_all (null_safe_combine combine False) None news = Inr None
   \<and> null_safe_finalize finalize' None = Inr None"
  using merge_all_poisoned [of combine news]
  by (simp add: null_safe_combine_def null_safe_finalize_def is_null_def)

text \<open>
  C8. For every built-in kind constructed with \<^verbatim>\<open>ignore_nulls = True\<close>, the initial
  accumulator of a group is null and a group that received no partial accumulator
  finalizes to null (also for \<^verbatim>\<open>Count\<close> and \<^verbatim>\<open>Sum\<close>, whose raw zero is 0): the safe zero
  factory returns null and the safe finalize returns a null accumulator as it is.
\<close>

theorem empty_group_is_null:
  "null_safe_finalize fin (null_safe_zero_factory zf True key) = Inr None
   \<and> initial (Count_init on (Some True) alias) key = Inr None
   \<and> empty_group (Count_init on (Some True) alias) key = Inr None
   \<and> initial (Sum_init on (Some True) alias) key = Inr None
   \<and> empty_group (Sum_init on (Some True) alias) key = Inr None
   \<and> initial (Min_init on (Some True) alias) key = Inr None
   \<and> empty_group (Min_init on (Some True) alias) key = Inr None
   \<and> initial (Max_init on (Some True) alias) key = Inr None
   \<and> empty_group (Max_init on (Some True) alias) key = Inr None
   \<and> initial (Mean_init on (Some True) alias) key = Inr None
   \<and> empty_group (Mean_init on (Some True) alias) key = Inr None
   \<and> initial (Std_init on ddof (Some True) alias) key = Inr None
   \<and> empty_group (Std_init on ddof (Some True) alias) key = Inr None
   \<and> initial (AbsMax_init (Some column) (Some True) alias) key = Inr None
   \<and> empty_group (AbsMax_init (Some column) (Some True) alias) key = Inr None
   \<and> initial (Quantile_init on q (Some True) alias) key = Inr None
   \<and> empty_group (Quantile_init on q (Some True) alias) key = Inr None
   \<and> initial (Unique_init on (Some True) alias) key = Inr None
   \<and> empty_group (Unique_init on (Some True) alias) key = Inr None"
  by (simp add: init_defs default_to_def empty_group_made default_names_nonempty
      null_safe_finalize_def null_safe_zero_factory_def is_null_def)

subsection \<open>Std\<close>


text \<open>In exact arithmetic the weighted-average form and the incremental form of the mean
  are the same number; they differ only in float rounding, which is outside the model.\<close>

lemma weighted_mean_incremental:
  fixes mean_a mean_b count_a count_b :: rat
  assumes "count_a + count_b \<noteq> 0"
  shows "(mean_a * count_a + mean_b * count_b) / (count_a + count_b)
         = mean_a + (mean_b - mean_a) * count_b / (count_a + count_b)"
  using assms by (simp add: field_simps)

text \<open>
  C9. Std's \<^verbatim>\<open>combine\<close> divides by \<open>count_a + count_b\<close>: when both operands have count 0
  it raises \<^verbatim>\<open>ZeroDivisionError\<close>. Two zero accumulators \<open>[0, 0, 0]\<close>, which under
  \<^verbatim>\<open>ignore_nulls = False\<close> are what the safe zero factory returns and are not null, reach
  the raw combine and raise, also through the \<^verbatim>\<open>merge\<close> of a constructed \<^verbatim>\<open>Std\<close>.
\<close>

theorem Std_combine_zero_counts:
  "Std_combine (Some [M2_a, mean_a, 0]) (Some [M2_b, mean_b, 0]) = Inl ZeroDivisionError
   \<and> null_safe_combine Std_combine False
        (null_safe_zero_factory (\<lambda>_. Some [0, 0, 0]) False key)
        (null_safe_zero_factory (\<lambda>_. Some [0, 0, 0]) False key) = Inl ZeroDivisionError
   \<and> and_then (Std_init on ddof (Some False) alias)
        (\<lambda>d. merge d (init d key) (init d key)) = Inl ZeroDivisionError"
  by (simp add: Std_combine_def unpack3_def and_then_def py_truediv_def Let_def
      null_safe_combine_def null_safe_zero_factory_def is_null_def
      Std_init_def default_to_def AggregateFnV2_init_Some default_names_nonempty)


subsection \<open>Quantile\<close>

lemma keep_simps:
  "keep None = False" "keep (Some (QScalar (Str []))) = False"
  "keep (Some (QScalar (Num n))) = True" "keep (Some (QScalar (Str (c # cs)))) = True"
  "keep (Some (QList xs)) = True"
  by (simp_all add: keep_def)

lemma spec_contribution_scalar:
  "spec_contribution (Some (QScalar v)) = (if keep (Some (QScalar v)) then [Some v] else [])"
proof (cases v)
  case (Num n)
  then show ?thesis by (simp add: keep_def)
next
  case (Str t)
  then show ?thesis by (cases t) (simp_all add: keep_def)
qed

lemma Quantile_combine_list_left:
  "Quantile_combine (Some (QList xs)) new = Inr (Some (QList (xs @ spec_contribution new)))"
proof (cases new)
  case None
  then show ?thesis by (simp add: Quantile_combine_def keep_def)
next
  case (Some a)
  then show ?thesis
    by (cases a) (simp_all add: Quantile_combine_def spec_contribution_scalar)
qed

lemma Quantile_combine_list_right:
  "Quantile_combine None (Some (QList ys)) = Inr (Some (QList ys))"
  "Quantile_combine (Some (QScalar v)) (Some (QList ys)) =
     Inr (Some (QList (ys @ spec_contribution (Some (QScalar v)))))"
  by (simp_all add: Quantile_combine_def spec_contribution_scalar keep_def)

lemma Quantile_combine_scalars:
  "Quantile_combine None None = Inr (Some (QList []))"
  "Quantile_combine None (Some (QScalar w)) = Inr (Some (QList (spec_contribution (Some (QScalar w)))))"
  "Quantile_combine (Some (QScalar v)) None = Inr (Some (QList (spec_contribution (Some (QScalar v)))))"
  "Quantile_combine (Some (QScalar v)) (Some (QScalar w)) =
     Inr (Some (QList (spec_contribution (Some (QScalar v)) @ spec_contribution (Some (QScalar w)))))"
  by (simp_all add: Quantile_combine_def spec_contribution_scalar keep_def)

text \<open>
  C6. Quantile's \<^verbatim>\<open>combine\<close> on operands that are lists or bare scalars: two lists are
  concatenated; a list and a scalar give the list with the scalar appended, the scalar
  being skipped when it is null or the empty string; two scalars give the list, of
  nought to two items, of those that are neither null nor the empty string.
\<close>

theorem Quantile_combine_merge_rules:
  "Quantile_combine (Some (QList xs)) (Some (QList ys)) = Inr (Some (QList (xs @ ys)))
   \<and> Quantile_combine (Some (QList xs)) None = Inr (Some (QList xs))
   \<and> Quantile_combine (Some (QList xs)) (Some (QScalar w)) =
       Inr (Some (QList (xs @ spec_contribution (Some (QScalar w)))))
   \<and> Quantile_combine None (Some (QList ys)) = Inr (Some (QList ys))
   \<and> Quantile_combine (Some (QScalar v)) (Some (QList ys)) =
       Inr (Some (QList (ys @ spec_contribution (Some (QScalar v)))))
   \<and> Quantile_combine None None = Inr (Some (QList []))
   \<and> Quantile_combine None (Some (QScalar w)) = Inr (Some (QList (spec_contribution (Some (QScalar w)))))
   \<and> Quantile_combine (Some (QScalar v)) None = Inr (Some (QList (spec_contribution (Some (QScalar v)))))
   \<and> Quantile_combine (Some (QScalar v)) (Some (QScalar w)) =
       Inr (Some (QList (spec_contribution (Some (QScalar v)) @ spec_contribution (Some (QScalar w)))))
   \<and> spec_contribution (Some (QScalar (Str ''''))) = []
   \<and> spec_contribution (Some (QScalar (Num n))) = [Some (Num n)]
   \<and> spec_contribution (Some (QScalar (Str (c # cs)))) = [Some (Str (c # cs))]"
  by (simp add: Quantile_combine_list_left Quantile_combine_list_right
      Quantile_combine_scalars)

text \<open>Sorting a list of numbers is \<open>sort\<close>; the null handling on a list whose non-null
  cells are numbers.\<close>

lemma py_insort_numbers:
  "py_insort (Some (Num x)) (map (\<lambda>y. Some (Num y)) ys) = Inr (map (\<lambda>y. Some (Num y)) (insort x ys))"
  by (induction ys) (auto simp: not_less)

lemma py_sorted_numbers:
  "py_sorted (map (\<lambda>y. Some (Num y)) xs) = Inr (map (\<lambda>y. Some (Num y)) (sort xs))"
  by (induction xs) (simp_all add: py_insort_numbers)

lemma filter_not_null_numbers:
  "\<forall>v\<in>set acc. v = None \<or> (\<exists>x. v = Some (Num x)) \<Longrightarrow>
   filter (\<lambda>v. \<not> is_null v) acc = map (\<lambda>y. Some (Num y)) (numbers_of acc)"
  by (induction acc rule: numbers_of.induct) (auto simp: is_null_def)

lemma no_null_numbers:
  "\<forall>v\<in>set acc. v = None \<or> (\<exists>x. v = Some (Num x)) \<Longrightarrow> None \<notin> set acc \<Longrightarrow>
   acc = map (\<lambda>y. Some (Num y)) (numbers_of acc)"
  by (induction acc rule: numbers_of.induct) auto

lemma filter_null_empty: "(filter (\<lambda>v. is_null v) acc = []) = (None \<notin> set acc)"
  by (induction acc) (auto simp: is_null_def)

lemma filter_null_head: "filter (\<lambda>v. is_null v) acc = n # ns \<Longrightarrow> n = None"
proof -
  assume "filter (\<lambda>v. is_null v) acc = n # ns"
  then have "n \<in> set (filter (\<lambda>v. is_null v) acc)" by simp
  then show "n = None" by (simp add: is_null_def)
qed

lemma py_getitem_map:
  "py_getitem (map g ys) i = (case py_getitem ys i of Inl e \<Rightarrow> Inl e | Inr y \<Rightarrow> Inr (g y))"
proof -
  have "nat (int (length ys) + i) < length ys" if "i < 0" "- int (length ys) \<le> i"
    using that by linarith
  moreover have "nat i < length ys" if "0 \<le> i" "i < int (length ys)"
    using that by linarith
  ultimately show ?thesis
    by (auto simp: py_getitem_def)
qed

lemma py_int_integral: "\<lfloor>k\<rfloor> = \<lceil>k\<rceil> \<Longrightarrow> py_int k = \<lfloor>k\<rfloor>"
  by (simp add: py_int_def)

text \<open>The computation on a non-empty list of numbers, after the null handling.\<close>

lemma quantile_of_numbers:
  "and_then (py_sorted (map (\<lambda>y. Some (Num y)) xs)) (\<lambda>input_values.
               let k = (of_nat (length input_values) - 1) * q;
                   f = \<lfloor>k\<rfloor>;
                   c = \<lceil>k\<rceil>
               in if f = c then py_getitem input_values (py_int k)
                  else and_then (py_getitem input_values f) (\<lambda>at_f.
                       and_then (py_mul_float at_f (of_int c - k)) (\<lambda>d0.
                       and_then (py_getitem input_values c) (\<lambda>at_c.
                       and_then (py_mul_float at_c (k - of_int f)) (\<lambda>d1.
                         Inr (Some (Num (py_round5 (d0 + d1)))))))))
     = and_then (spec_quantile q (sort xs)) (\<lambda>v. Inr (Some (Num v)))"
  by (auto simp: py_sorted_numbers Let_def py_getitem_map py_int_integral and_then_def
      spec_quantile_def split: sum.splits)

lemma Quantile_finalize_numbers:
  assumes "\<forall>v\<in>set acc. v = None \<or> (\<exists>x. v = Some (Num x))"
  shows "Quantile_finalize ign q (Some (QList acc)) =
     (if \<not> ign \<and> None \<in> set acc then Inr None
      else if numbers_of acc = [] then Inr None
      else and_then (spec_quantile q (sort (numbers_of acc))) (\<lambda>v. Inr (Some (Num v))))"
proof (cases ign)
  case True
  have kept: "filter (\<lambda>v. \<not> is_null v) acc = map (\<lambda>y. Some (Num y)) (numbers_of acc)"
    using assms by (rule filter_not_null_numbers)
  show ?thesis
    unfolding Quantile_finalize_def py_iter.simps and_then_Inr Let_def
    using True by (simp add: kept quantile_of_numbers [unfolded Let_def])
next
  case False
  show ?thesis
  proof (cases "None \<in> set acc")
    case True
    then obtain n ns where nulls: "filter (\<lambda>v. is_null v) acc = n # ns"
      using filter_null_empty [of acc] by (cases "filter (\<lambda>v. is_null v) acc") auto
    then have "n = None" by (rule filter_null_head)
    with nulls show ?thesis
      unfolding Quantile_finalize_def py_iter.simps and_then_Inr Let_def
      using \<open>\<not> ign\<close> True by simp
  next
    case no_null: False
    have all: "acc = map (\<lambda>y. Some (Num y)) (numbers_of acc)"
      using assms no_null by (rule no_null_numbers)
    have nulls: "filter (\<lambda>v. is_null v) acc = []"
      using no_null by (simp add: filter_null_empty)
    have empty: "(acc = []) = (numbers_of acc = [])"
      using all by (metis map_is_Nil_conv)
    have "Quantile_finalize ign q (Some (QList acc)) =
        (if acc = [] then Inr None
         else and_then (py_sorted acc) (\<lambda>input_values.
               let k = (of_nat (length input_values) - 1) * q;
                   f = \<lfloor>k\<rfloor>;
                   c = \<lceil>k\<rceil>
               in if f = c then py_getitem input_values (py_int k)
                  else and_then (py_getitem input_values f) (\<lambda>at_f.
                       and_then (py_mul_float at_f (of_int c - k)) (\<lambda>d0.
                       and_then (py_getitem input_values c) (\<lambda>at_c.
                       and_then (py_mul_float at_c (k - of_int f)) (\<lambda>d1.
                         Inr (Some (Num (py_round5 (d0 + d1))))))))))"
      unfolding Quantile_finalize_def py_iter.simps and_then_Inr
      using \<open>\<not> ign\<close> by (simp add: nulls Let_def)
    also have "\<dots> = (if numbers_of acc = [] then Inr None
         else and_then (py_sorted (map (\<lambda>y. Some (Num y)) (numbers_of acc))) (\<lambda>input_values.
               let k = (of_nat (length input_values) - 1) * q;
                   f = \<lfloor>k\<rfloor>;
                   c = \<lceil>k\<rceil>
               in if f = c then py_getitem input_values (py_int k)
                  else and_then (py_getitem input_values f) (\<lambda>at_f.
                       and_then (py_mul_float at_f (of_int c - k)) (\<lambda>d0.
                       and_then (py_getitem input_values c) (\<lambda>at_c.
                       and_then (py_mul_float at_c (k - of_int f)) (\<lambda>d1.
                         Inr (Some (Num (py_round5 (d0 + d1))))))))))"
      using all empty by simp
    finally show ?thesis
      using \<open>\<not> ign\<close> no_null by (simp add: quantile_of_numbers)
  qed
qed

lemma rank_in_range:
  fixes q :: rat
  assumes "0 \<le> q" "q \<le> 1" "ys \<noteq> []"
  defines "k \<equiv> (of_nat (length ys) - 1) * q"
  shows "0 \<le> \<lfloor>k\<rfloor>" "\<lfloor>k\<rfloor> < int (length ys)" "0 \<le> \<lceil>k\<rceil>" "\<lceil>k\<rceil> < int (length ys)"
proof -
  have n: "1 \<le> length ys" using assms(3) by (cases ys) simp_all
  then have n1: "(0::rat) \<le> of_nat (length ys) - 1" by simp
  have k0: "0 \<le> k" unfolding k_def using n1 assms(1) by simp
  have "k \<le> (of_nat (length ys) - 1) * 1"
    unfolding k_def using n1 assms(2) by (intro mult_left_mono) simp_all
  then have k1: "k \<le> of_nat (length ys) - 1" by simp
  show "0 \<le> \<lfloor>k\<rfloor>" using k0 by simp
  show "0 \<le> \<lceil>k\<rceil>" using k0 by (simp add: ceiling_le_iff le_ceiling_iff)
  have "\<lceil>k\<rceil> \<le> int (length ys) - 1" by (rule ceiling_le) (use k1 in simp)
  then show "\<lceil>k\<rceil> < int (length ys)" by simp
  have "\<lfloor>k\<rfloor> \<le> \<lceil>k\<rceil>" by (rule floor_le_ceiling)
  with \<open>\<lceil>k\<rceil> < int (length ys)\<close> show "\<lfloor>k\<rfloor> < int (length ys)" by linarith
qed

lemma spec_interpolation_in_range:
  assumes "0 \<le> q" "q \<le> 1" "ys \<noteq> []"
  shows "spec_quantile q ys = Inr (spec_interpolation q ys)"
  using rank_in_range [OF assms]
  by (simp add: Let_def spec_interpolation_def spec_quantile_def py_getitem_def)

text \<open>\<^verbatim>\<open>round(x, 5)\<close> is a multiple of \<open>10\<^sup>-\<^sup>5\<close> at most half a unit of the fifth place
  away from \<open>x\<close>.\<close>

lemma round_half_even_error: "\<bar>of_int (round_half_even y) - y\<bar> \<le> 1 / 2"
proof -
  have "of_int \<lfloor>y\<rfloor> \<le> y" "y < of_int \<lfloor>y\<rfloor> + 1"
    by linarith+
  then show ?thesis
    by (auto simp: round_half_even_def Let_def abs_le_iff)
qed

lemma py_round5_nearest:
  "py_round5 x * 100000 = of_int (round_half_even (x * 100000))"
  "\<bar>py_round5 x - x\<bar> \<le> 1 / 200000"
proof -
  show "py_round5 x * 100000 = of_int (round_half_even (x * 100000))"
    by (simp add: py_round5_def)
  have "\<bar>of_int (round_half_even (x * 100000)) - x * 100000\<bar> \<le> 1 / 2"
    by (rule round_half_even_error)
  then have "\<bar>(of_int (round_half_even (x * 100000)) - x * 100000) / 100000\<bar> \<le> (1 / 2) / 100000"
    by (simp add: divide_right_mono del: of_int_mult of_int_numeral)
  then show "\<bar>py_round5 x - x\<bar> \<le> 1 / 200000"
    by (simp add: py_round5_def diff_divide_distrib)
qed

lemma Quantile_finalize_null:
  assumes "\<not> ign" "None \<in> set acc"
  shows "Quantile_finalize ign q (Some (QList acc)) = Inr None"
proof -
  obtain n ns where nulls: "filter (\<lambda>v. is_null v) acc = n # ns"
    using assms(2) filter_null_empty [of acc] by (cases "filter (\<lambda>v. is_null v) acc") auto
  then have "n = None" by (rule filter_null_head)
  with nulls show ?thesis
    unfolding Quantile_finalize_def py_iter.simps and_then_Inr Let_def
    using assms(1) by simp
qed

lemma Quantile_finalize_empty:
  assumes "ign \<or> None \<notin> set acc" "filter (\<lambda>v. v \<noteq> None) acc = []"
  shows "Quantile_finalize ign q (Some (QList acc)) = Inr None"
proof (cases ign)
  case True
  then show ?thesis
    unfolding Quantile_finalize_def py_iter.simps and_then_Inr Let_def
    using assms(2) by (simp add: is_null_def)
next
  case False
  with assms(1) have no_null: "None \<notin> set acc" by simp
  then have "filter (\<lambda>v. v \<noteq> None) acc = acc"
    by (intro filter_True) metis
  with assms(2) have "acc = []" by simp
  then show ?thesis
    unfolding Quantile_finalize_def py_iter.simps and_then_Inr Let_def
    using False by simp
qed

lemma Quantile_finalize_examples_closed:
  "Quantile_finalize True (1 / 2) (Some (QList [Some (Num 1), Some (Num 2), Some (Num 3), Some (Num 4)]))
     = Inr (Some (Num (5 / 2)))"
  "Quantile_finalize False (1 / 2) (Some (QList [Some (Num 1), Some (Num 2), Some (Num 3), Some (Num 4)]))
     = Inr (Some (Num (5 / 2)))"
  "Quantile_finalize True (1 / 4) (Some (QList [Some (Num 1), Some (Num 2), Some (Num 3), Some (Num 4)]))
     = Inr (Some (Num (7 / 4)))"
  "Quantile_finalize False (1 / 4) (Some (QList [Some (Num 1), Some (Num 2), Some (Num 3), Some (Num 4)]))
     = Inr (Some (Num (7 / 4)))"
  by code_simp+

lemma Quantile_finalize_examples:
  "Quantile_finalize ign (1 / 2) (Some (QList [Some (Num 1), Some (Num 2), Some (Num 3), Some (Num 4)]))
     = Inr (Some (Num (5 / 2)))"
  "Quantile_finalize ign (1 / 4) (Some (QList [Some (Num 1), Some (Num 2), Some (Num 3), Some (Num 4)]))
     = Inr (Some (Num (7 / 4)))"
  by (cases ign; simp only: Quantile_finalize_examples_closed simp_thms)+




lemma count_numbers_of:
  "count (mset (numbers_of acc)) x = count (mset acc) (Some (Num x))"
  by (induction acc rule: numbers_of.induct) auto

lemma numbers_of_permuted:
  assumes "mset xs = mset ys"
  shows "mset (numbers_of xs) = mset (numbers_of ys)"
  by (rule multiset_eqI) (simp add: count_numbers_of assms)

text \<open>The order of a Quantile accumulator does not reach the result.\<close>

lemma Quantile_finalize_permuted:
  assumes "\<forall>v\<in>set xs. v = None \<or> (\<exists>x. v = Some (Num x))" "mset xs = mset ys"
  shows "Quantile_finalize ign q (Some (QList xs)) = Quantile_finalize ign q (Some (QList ys))"
proof -
  have sets: "set xs = set ys" using assms(2) by (rule mset_eq_setD)
  with assms(1) have numeric: "\<forall>v\<in>set ys. v = None \<or> (\<exists>x. v = Some (Num x))" by simp
  have numbers: "mset (numbers_of xs) = mset (numbers_of ys)"
    using assms(2) by (rule numbers_of_permuted)
  then have sorted_same: "sort (numbers_of xs) = sort (numbers_of ys)"
    by (intro properties_for_sort) simp_all
  have "(numbers_of xs = []) = (numbers_of ys = [])"
    using numbers by (metis mset_zero_iff)
  then show ?thesis
    by (simp add: Quantile_finalize_numbers [OF assms(1)] Quantile_finalize_numbers [OF numeric]
        sets sorted_same)
qed


subsection \<open>Commutativity and associativity of the safe combine\<close>

lemma py_add_Some: "py_add (Some a) (Some b) = Inr (Some (a + b))"
  by (simp add: py_add_def)

lemma py_min_Some: "py_min (Some (a::'a::linorder)) (Some b) = Inr (Some (min a b))"
  by (auto simp: py_min_def min_def)

lemma py_max_Some: "py_max (Some (a::'a::linorder)) (Some b) = Inr (Some (max a b))"
  by (auto simp: py_max_def max_def)

lemmas safe_defs = null_safe_combine_def is_null_def commutes_def associates_def

lemma Count_laws:
  "commutes (null_safe_combine Count_combine ign) a b"
  "associates (null_safe_combine Count_combine ign) a b c"
  by (cases a; cases b; cases c; simp add: safe_defs Count_combine_def py_add_Some)+

lemma Sum_laws:
  "commutes (null_safe_combine Sum_combine ign) a b"
  "associates (null_safe_combine Sum_combine ign) a b c"
  by (cases a; cases b; cases c; simp add: safe_defs Sum_combine_def py_add_Some)+

lemma Min_laws:
  "commutes (null_safe_combine Min_combine ign) a b"
  "associates (null_safe_combine Min_combine ign) a b c"
  by (cases a; cases b; cases c; simp add: safe_defs Min_combine_def py_min_Some ac_simps)+

lemma Max_laws:
  "commutes (null_safe_combine Max_combine ign) a b"
  "associates (null_safe_combine Max_combine ign) a b c"
  by (cases a; cases b; cases c; simp add: safe_defs Max_combine_def py_max_Some ac_simps)+

lemma AbsMax_laws:
  "commutes (null_safe_combine AbsMax_combine ign) a b"
  "associates (null_safe_combine AbsMax_combine ign) a b c"
  by (cases a; cases b; cases c; simp add: safe_defs AbsMax_combine_def py_max_Some ac_simps)+

lemma Unique_laws:
  "commutes (null_safe_combine Unique_combine ign) a b"
  "associates (null_safe_combine Unique_combine ign) a b c"
  by (cases a; cases b; cases c; simp add: safe_defs Unique_combine_def ac_simps)+


lemma py_subscript_Some:
  "py_subscript (Some xs) 0 = (if xs = [] then Inl IndexError else Inr (xs ! 0))"
  "py_subscript (Some xs) 1 = (if length xs < 2 then Inl IndexError else Inr (xs ! 1))"
  by (auto simp: py_subscript_def py_getitem_def)

lemma Mean_combine_Some:
  "Mean_combine (Some xs) (Some ys) =
     (if length xs < 2 \<or> length ys < 2 then Inl IndexError
      else Inr (Some [xs ! 0 + ys ! 0, xs ! 1 + ys ! 1]))"
  by (auto simp: Mean_combine_def py_subscript_Some)

lemma Mean_commutes: "commutes (null_safe_combine Mean_combine ign) a b"
  by (cases a; cases b; auto simp: safe_defs Mean_combine_Some)

lemma Mean_associates:
  assumes "is_pair a" "is_pair b" "is_pair c"
  shows "associates (null_safe_combine Mean_combine ign) a b c"
  using assms
  by (cases a; cases b; cases c; simp add: safe_defs Mean_combine_Some is_pair_def)

lemma unpack3_Some:
  "unpack3 (Some xs) = (if length xs = 3 then Inr (xs ! 0, xs ! 1, xs ! 2) else Inl ValueError)"
proof (cases xs)
  case Nil
  then show ?thesis by (simp add: unpack3_def)
next
  case (Cons a as)
  then show ?thesis
  proof (cases as)
    case Nil
    with Cons show ?thesis by (simp add: unpack3_def)
  next
    case (Cons b bs)
    note bs = this
    show ?thesis
    proof (cases bs)
      case Nil
      with \<open>xs = a # as\<close> bs show ?thesis by (simp add: unpack3_def)
    next
      case (Cons c cs)
      with \<open>xs = a # as\<close> bs show ?thesis by (cases cs) (simp_all add: unpack3_def)
    qed
  qed
qed

lemma Std_combine_Some:
  "Std_combine (Some xs) (Some ys) =
     (if length xs \<noteq> 3 \<or> length ys \<noteq> 3 then Inl ValueError
      else if xs ! 2 + ys ! 2 = 0 then Inl ZeroDivisionError
      else Inr (Some [xs ! 0 + ys ! 0 + (ys ! 1 - xs ! 1)\<^sup>2 * xs ! 2 * ys ! 2 / (xs ! 2 + ys ! 2),
                      (xs ! 1 * xs ! 2 + ys ! 1 * ys ! 2) / (xs ! 2 + ys ! 2),
                      xs ! 2 + ys ! 2]))"
  by (simp add: Std_combine_def unpack3_Some py_truediv_def Let_def)

lemma Std_commutes: "commutes (null_safe_combine Std_combine ign) a b"
  by (cases a; cases b; auto simp: safe_defs Std_combine_Some add.commute power2_commute mult.commute)

lemma between:
  fixes m1 m2 n1 n2 :: rat
  assumes "n1 + n2 \<noteq> 0"
  shows "(m2 - m1)\<^sup>2 * n1 * n2 / (n1 + n2)
         = n1 * m1\<^sup>2 + n2 * m2\<^sup>2 - (m1 * n1 + m2 * n2)\<^sup>2 / (n1 + n2)"
proof -
  have "(m2 - m1)\<^sup>2 * n1 * n2 = (n1 * m1\<^sup>2 + n2 * m2\<^sup>2) * (n1 + n2) - (m1 * n1 + m2 * n2)\<^sup>2"
    by (simp add: power2_eq_square algebra_simps)
  then show ?thesis using assms by (simp add: field_simps)
qed

lemma chan_assoc:
  fixes A B C ma mb mc na nb nc :: rat
  assumes "na + nb \<noteq> 0" "nb + nc \<noteq> 0" "na + nb + nc \<noteq> 0"
  shows "A + B + (mb - ma)\<^sup>2 * na * nb / (na + nb) + C
           + (mc - (ma * na + mb * nb) / (na + nb))\<^sup>2 * (na + nb) * nc / (na + nb + nc)
       = A + (B + C + (mc - mb)\<^sup>2 * nb * nc / (nb + nc))
           + ((mb * nb + mc * nc) / (nb + nc) - ma)\<^sup>2 * na * (nb + nc) / (na + (nb + nc))"
proof -
  define Sab where "Sab = ma * na + mb * nb"
  define Sbc where "Sbc = mb * nb + mc * nc"
  define n where "n = na + nb + nc"
  have n': "na + (nb + nc) = n" by (simp add: n_def)
  have total: "Sab + mc * nc = ma * na + Sbc" by (simp add: Sab_def Sbc_def)
  have sq: "k * (s / k)\<^sup>2 = s\<^sup>2 / k" if "k \<noteq> 0" for k s :: rat
    using that by (simp add: power2_eq_square)
  have cancel: "s / k * k = s" if "k \<noteq> 0" for k s :: rat
    using that by simp
  have ab: "(mb - ma)\<^sup>2 * na * nb / (na + nb) = na * ma\<^sup>2 + nb * mb\<^sup>2 - Sab\<^sup>2 / (na + nb)"
    unfolding Sab_def by (rule between [OF assms(1)])
  have bc: "(mc - mb)\<^sup>2 * nb * nc / (nb + nc) = nb * mb\<^sup>2 + nc * mc\<^sup>2 - Sbc\<^sup>2 / (nb + nc)"
    unfolding Sbc_def by (rule between [OF assms(2)])
  have "(mc - Sab / (na + nb))\<^sup>2 * (na + nb) * nc / (na + nb + nc)
      = (na + nb) * (Sab / (na + nb))\<^sup>2 + nc * mc\<^sup>2
        - (Sab / (na + nb) * (na + nb) + mc * nc)\<^sup>2 / (na + nb + nc)"
    by (rule between [OF assms(3)])
  then have l: "(mc - Sab / (na + nb))\<^sup>2 * (na + nb) * nc / (na + nb + nc)
      = Sab\<^sup>2 / (na + nb) + nc * mc\<^sup>2 - (Sab + mc * nc)\<^sup>2 / n"
    by (simp only: sq [OF assms(1)] cancel [OF assms(1)] n_def)
  have "na + (nb + nc) \<noteq> 0" using assms(3) by (simp add: add.assoc)
  then have "(Sbc / (nb + nc) - ma)\<^sup>2 * na * (nb + nc) / (na + (nb + nc))
      = na * ma\<^sup>2 + (nb + nc) * (Sbc / (nb + nc))\<^sup>2
        - (ma * na + Sbc / (nb + nc) * (nb + nc))\<^sup>2 / (na + (nb + nc))"
    by (rule between)
  then have r: "(Sbc / (nb + nc) - ma)\<^sup>2 * na * (nb + nc) / (na + (nb + nc))
      = na * ma\<^sup>2 + Sbc\<^sup>2 / (nb + nc) - (ma * na + Sbc)\<^sup>2 / n"
    by (simp only: sq [OF assms(2)] cancel [OF assms(2)] n')
  show ?thesis
    unfolding ab bc l [unfolded Sab_def] r [unfolded Sbc_def] total [unfolded Sab_def Sbc_def]
    by (simp add: Sab_def Sbc_def)
qed


lemma Std_combine_triples:
  "Std_combine (Some [M2_a, mean_a, count_a]) (Some [M2_b, mean_b, count_b]) =
     (if count_a + count_b = 0 then Inl ZeroDivisionError
      else Inr (Some [M2_a + M2_b + (mean_b - mean_a)\<^sup>2 * count_a * count_b / (count_a + count_b),
                      (mean_a * count_a + mean_b * count_b) / (count_a + count_b),
                      count_a + count_b]))"
  by (simp add: Std_combine_Some)

lemma Std_combine_assoc_triples:
  assumes "0 < na" "0 < nb" "0 < nc"
  shows "and_then (Std_combine (Some [A, ma, na]) (Some [B, mb, nb]))
           (\<lambda>ab. Std_combine ab (Some [C, mc, nc]))
         = and_then (Std_combine (Some [B, mb, nb]) (Some [C, mc, nc]))
           (\<lambda>bc. Std_combine (Some [A, ma, na]) bc)"
proof -
  have nz: "na + nb \<noteq> 0" "nb + nc \<noteq> 0" "na + nb + nc \<noteq> 0" "na + (nb + nc) \<noteq> 0"
    using assms by simp_all
  have mean: "((ma * na + mb * nb) / (na + nb) * (na + nb) + mc * nc) / (na + nb + nc)
      = (ma * na + (mb * nb + mc * nc) / (nb + nc) * (nb + nc)) / (na + (nb + nc))"
    using nz by (simp add: add.assoc)
  show ?thesis
    using nz chan_assoc [OF nz(1,2,3), of A B mb ma C mc] mean
    by (simp add: Std_combine_triples add.assoc)
qed

lemma triple_with_rows_cases:
  assumes "is_triple_with_rows acc"
  obtains "acc = None" | M2 mean count where "acc = Some [M2, mean, count]" "0 < count"
proof (cases acc)
  case None
  then show ?thesis using that by simp
next
  case (Some xs)
  with assms have len: "length xs = 3" and pos: "0 < xs ! 2"
    by (simp_all add: is_triple_with_rows_def)
  from len obtain x0 x1 x2 where "xs = [x0, x1, x2]"
    by (auto simp: numeral_3_eq_3 length_Suc_conv)
  with Some pos show ?thesis using that by simp
qed

lemma Std_associates:
  assumes "is_triple_with_rows a" "is_triple_with_rows b" "is_triple_with_rows c"
  shows "associates (null_safe_combine Std_combine ign) a b c"
proof -
  have pos: "0 < na + nb" if "0 < na" "0 < nb" for na nb :: rat
    using that by simp
  show ?thesis
    using assms(1)
  proof (cases rule: triple_with_rows_cases)
    case 1
    then show ?thesis
      using assms(2,3)
      by (cases b; cases c) (auto simp: safe_defs Std_combine_Some is_triple_with_rows_def)
  next
    case a: (2 A ma na)
    show ?thesis
      using assms(2)
    proof (cases rule: triple_with_rows_cases)
      case 1
      then show ?thesis
        using a assms(3)
        by (cases c) (auto simp: safe_defs Std_combine_Some is_triple_with_rows_def)
    next
      case b: (2 B mb nb)
      show ?thesis
        using assms(3)
      proof (cases rule: triple_with_rows_cases)
        case 1
        then show ?thesis
          using a b by (auto simp: safe_defs Std_combine_triples)
      next
        case c: (2 C mc nc)
        have ab: "Std_combine (Some [A, ma, na]) (Some [B, mb, nb]) \<noteq> Inr None"
          and bc: "Std_combine (Some [B, mb, nb]) (Some [C, mc, nc]) \<noteq> Inr None"
          by (simp_all add: Std_combine_triples)
        from Std_combine_assoc_triples [OF a(2) b(2) c(2), of A ma B mb C mc]
        show ?thesis
          using a b c pos
          by (auto simp: safe_defs Std_combine_triples split: if_splits)
      qed
    qed
  qed
qed


lemma Quantile_combine_items:
  obtains zs where "Quantile_combine a b = Inr (Some (QList zs))"
    "mset zs = mset (spec_contribution a) + mset (spec_contribution b)"
proof (cases a)
  case None
  show ?thesis
  proof (cases b)
    case None
    with \<open>a = None\<close> show ?thesis using that by (simp add: Quantile_combine_scalars)
  next
    case (Some y)
    with \<open>a = None\<close> show ?thesis
      using that by (cases y) (simp_all add: Quantile_combine_scalars Quantile_combine_list_right)
  qed
next
  case (Some x)
  show ?thesis
  proof (cases x)
    case (QList xs)
    with Some show ?thesis using that by (simp add: Quantile_combine_list_left)
  next
    case (QScalar v)
    show ?thesis
    proof (cases b)
      case None
      with Some QScalar show ?thesis using that by (simp add: Quantile_combine_scalars)
    next
      case b: (Some y)
      with Some QScalar show ?thesis
        using that
        by (cases y) (simp_all add: Quantile_combine_scalars Quantile_combine_list_right)
    qed
  qed
qed

lemma same_items_Inr:
  "same_items (Inr x) (Inr y) = (mset (spec_contribution x) = mset (spec_contribution y))"
  by (simp add: same_items_def)

lemma Quantile_same_items: 
  "same_items (null_safe_combine Quantile_combine ign a b) (null_safe_combine Quantile_combine ign b a)"
proof -
  obtain zs where zs: "Quantile_combine a b = Inr (Some (QList zs))"
    "mset zs = mset (spec_contribution a) + mset (spec_contribution b)"
    by (rule Quantile_combine_items)
  obtain ws where ws: "Quantile_combine b a = Inr (Some (QList ws))"
    "mset ws = mset (spec_contribution b) + mset (spec_contribution a)"
    by (rule Quantile_combine_items)
  show ?thesis
    using zs ws
    by (cases a; cases b) (simp_all add: null_safe_combine_def is_null_def same_items_Inr)
qed

lemma Quantile_same_items_assoc: 
  "same_items
     (and_then (null_safe_combine Quantile_combine ign a b)
        (\<lambda>ab. null_safe_combine Quantile_combine ign ab c))
     (and_then (null_safe_combine Quantile_combine ign b c)
        (\<lambda>bc. null_safe_combine Quantile_combine ign a bc))"
proof -
  obtain xs where ab: "Quantile_combine a b = Inr (Some (QList xs))"
    "mset xs = mset (spec_contribution a) + mset (spec_contribution b)"
    by (rule Quantile_combine_items)
  obtain ys where bc: "Quantile_combine b c = Inr (Some (QList ys))"
    "mset ys = mset (spec_contribution b) + mset (spec_contribution c)"
    by (rule Quantile_combine_items)
  obtain zs where ac: "Quantile_combine a c = Inr (Some (QList zs))"
    "mset zs = mset (spec_contribution a) + mset (spec_contribution c)"
    by (rule Quantile_combine_items)
  obtain us where l: "Quantile_combine (Some (QList xs)) c = Inr (Some (QList us))"
    "mset us = mset (spec_contribution (Some (QList xs))) + mset (spec_contribution c)"
    by (rule Quantile_combine_items)
  obtain vs where r: "Quantile_combine a (Some (QList ys)) = Inr (Some (QList vs))"
    "mset vs = mset (spec_contribution a) + mset (spec_contribution (Some (QList ys)))"
    by (rule Quantile_combine_items)
  show ?thesis
    using ab bc ac l r
    by (cases a; cases b; cases c)
      (simp_all add: null_safe_combine_def is_null_def same_items_Inr)
qed

lemma is_list_cases:
  assumes "is_list a"
  obtains "a = None" | xs where "a = Some (QList xs)"
  using assms by (cases a) (auto simp: is_list_def split: qacc.splits)

lemma Quantile_associates:
  assumes "is_list a" "is_list b" "is_list c"
  shows "associates (null_safe_combine Quantile_combine ign) a b c"
  using assms(1)
proof (cases rule: is_list_cases)
  case 1
  then show ?thesis
    using assms(2,3)
    by (cases rule: is_list_cases [OF assms(2)]; cases rule: is_list_cases [OF assms(3)])
      (simp_all add: safe_defs Quantile_combine_list_left)
next
  case (2 xs)
  then show ?thesis
    by (cases rule: is_list_cases [OF assms(2)]; cases rule: is_list_cases [OF assms(3)])
      (simp_all add: safe_defs Quantile_combine_list_left)
qed


text \<open>Std accumulators with count 0 are left out of the associativity law: with two zero
  accumulators \<open>[0, 0, 0]\<close> one grouping raises and the other returns.\<close>

lemma Std_zero_accumulators_not_associative:
  "and_then (null_safe_combine Std_combine False (Some [0, 0, 0]) (Some [0, 0, 0]))
     (\<lambda>ab. null_safe_combine Std_combine False ab (Some [0, 5, 1])) = Inl ZeroDivisionError
   \<and> and_then (null_safe_combine Std_combine False (Some [0, 0, 0]) (Some [0, 5, 1]))
     (\<lambda>bc. null_safe_combine Std_combine False (Some [0, 0, 0]) bc) = Inr (Some [0, 5, 1])"
  by (simp add: null_safe_combine_def is_null_def Std_combine_triples)

text \<open>Merging keeps the shapes: pairs give a pair, triples with rows a triple with rows,
  and Quantile's merge of two non-null operands a list.\<close>

lemma merged_shapes:
  "is_pair a \<Longrightarrow> is_pair b \<Longrightarrow>
     \<exists>r. null_safe_combine Mean_combine ign a b = Inr r \<and> is_pair r"
  "is_triple_with_rows c \<Longrightarrow> is_triple_with_rows d \<Longrightarrow>
     \<exists>r. null_safe_combine Std_combine ign c d = Inr r \<and> is_triple_with_rows r"
  "\<exists>r. null_safe_combine Quantile_combine ign e f = Inr r \<and> (e \<noteq> None \<and> f \<noteq> None \<longrightarrow> is_list r)"
proof -
  show "is_pair a \<Longrightarrow> is_pair b \<Longrightarrow>
     \<exists>r. null_safe_combine Mean_combine ign a b = Inr r \<and> is_pair r"
    by (cases a; cases b) (auto simp: null_safe_combine_def is_null_def is_pair_def Mean_combine_Some)
  show "is_triple_with_rows c \<Longrightarrow> is_triple_with_rows d \<Longrightarrow>
     \<exists>r. null_safe_combine Std_combine ign c d = Inr r \<and> is_triple_with_rows r"
    by (cases c; cases d)
      (auto simp: null_safe_combine_def is_null_def is_triple_with_rows_def Std_combine_Some
        add_pos_pos)
  obtain zs where "Quantile_combine e f = Inr (Some (QList zs))"
    by (rule Quantile_combine_items)
  then show "\<exists>r. null_safe_combine Quantile_combine ign e f = Inr r
      \<and> (e \<noteq> None \<and> f \<noteq> None \<longrightarrow> is_list r)"
    by (cases e; cases f) (auto simp: null_safe_combine_def is_null_def is_list_def)
qed





end
